theory Spec2Isabelle
  imports Main
begin

section \<open>The chat client of \<open>frontend/src/App.js\<close>\<close>

text \<open>
  The component \<open>App\<close> keeps its data in React state variables and in the browser's
  \<open>localStorage\<close>; every handler is an \<open>async\<close> function that runs synchronously up to its
  first \<open>await\<close> and is resumed when the awaited request settles. The model below makes
  that explicit: one record holds the state variables, the two \<open>localStorage\<close> entries and
  the observable effects (requests issued, alerts, console errors, calls of the speech
  synthesiser), and every handler is split into the function that runs up to the
  \<open>await\<close> and the functions that resume it. A resumed handler still sees the values its
  closure captured when it was called, so each pending operation stores them. An error
  thrown while React renders, which no handler catches, unmounts the component; like the
  reload of the page that the response interceptor asks for, this is recorded as an
  effect (\<open>unmounted\<close>, \<open>reload_requested\<close>).
\<close>

subsection \<open>Data\<close>

record message =
  role :: string
  content :: string
  relatedQuestions :: "string list option"

text \<open>One element of \<open>response.data.messages\<close> of \<open>GET /conversations/{id}\<close>.\<close>

record history_message =
  h_role :: string
  h_content :: string

record conversation =
  id_conv :: string
  title :: string
  message_count :: nat
  updated_at :: string
  created_at :: string

record user_info =
  username :: string
  user_id :: string

record file_obj =
  file_name :: string
  file_type :: string

text \<open>\<open>response.data\<close> of \<open>POST /chat\<close> and \<open>POST /chat_vision\<close>.\<close>

record chat_data =
  answer :: string
  related_questions :: "string list option"
  conversation_id :: "string option"

text \<open>
  What a settled request delivers to the handler that awaits it: \<open>Resolved (Some d)\<close> is
  a response with \<open>response.data = d\<close>, \<open>Resolved None\<close> a response whose \<open>data\<close> is
  \<open>null\<close> (reading a property of it throws a \<open>TypeError\<close>), and \<open>Failed r\<close> a rejection
  with \<open>error.response = r\<close>, absent when the network failed. \<open>data_error\<close> is
  \<open>error.response.data?.error\<close>.
\<close>

record http_error =
  status :: nat
  data_error :: "string option"

datatype 'a response = Resolved "'a option" | Failed "http_error option"

datatype js_error = AxiosError "http_error option" | TypeError

subsection \<open>Requests\<close>

datatype field_value = Text string | Blob file_obj

datatype payload =
    FormData "(string \<times> field_value) list"
  | Json "(string \<times> string) list"
  | NoPayload

datatype http_method = GET | POST | DELETE

datatype request = Request http_method string payload

datatype synth_call = SynthCancel | SynthSpeak nat string

subsection \<open>Pending operations and the state\<close>

text \<open>
  The values \<open>handleSendMessage\<close> reads after its \<open>await\<close> come from the render in which
  it was called.
\<close>

record turn_closure =
  cl_selectedImage :: "file_obj option"
  cl_currentConversationId :: "string option"

datatype pending_op =
    PendingChat turn_closure
  | PendingChatRefresh chat_data
  | PendingHistory string
  | PendingDelete string "string option"
  | PendingRefresh
  | PendingLogout
  | PendingCreate
  | PendingUpload
  | PendingTranscribe

record app =
  ls_token :: "string option"
  ls_user :: "user_info option"
  isAuthenticated :: bool
  user :: "user_info option"
  showAuthModal :: bool
  messages :: "message list"
  input :: string
  isLoading :: bool
  selectedImage :: "file_obj option"
  imagePreview :: "string option"
  isSpeaking :: bool
  speakingMessageId :: "nat option"
  conversations :: "conversation list"
  currentConversationId :: "string option"
  sidebarOpen :: bool
  isLoadingConversations :: bool
  utterance :: "nat option"
  utterances_created :: nat
  synth_calls :: "synth_call list"
  requests :: "request list"
  pending :: "pending_op list"
  alerts :: "string list"
  console_errors :: "string list"
  reload_requested :: bool
  unmounted :: bool

subsection \<open>JavaScript's truthiness and \<open>trim\<close>\<close>

text \<open>A string is truthy when it is neither \<open>null\<close>/\<open>undefined\<close> nor empty.\<close>

fun truthy :: "string option \<Rightarrow> bool" where
  "truthy None = False"
| "truthy (Some t) = (t \<noteq> [])"

text \<open>\<open>a || b\<close> on strings.\<close>

fun or_else :: "string option \<Rightarrow> string \<Rightarrow> string" where
  "or_else None d = d"
| "or_else (Some t) d = (if t = [] then d else t)"

text \<open>
  \<open>String.prototype.trim\<close> removes white space at both ends; of the characters it
  counts as white space, these are the ones a byte can hold.
\<close>

definition isWhiteSpace :: "char \<Rightarrow> bool" where
  "isWhiteSpace c =
     (c = CHR 0x09 \<or> c = CHR 0x0A \<or> c = CHR 0x0B \<or> c = CHR 0x0C \<or> c = CHR 0x0D
      \<or> c = CHR 0x20 \<or> c = CHR 0xA0)"

definition trim :: "string \<Rightarrow> string" where
  "trim t = rev (dropWhile isWhiteSpace (rev (dropWhile isWhiteSpace t)))"

subsection \<open>The response interceptor\<close>

text \<open>
  Every request of the \<open>api\<close> instance that is rejected passes through the interceptor
  before the handler's \<open>catch\<close> sees it: on status 401 the stored session is removed and
  the page is asked to reload.
\<close>

definition responseInterceptor :: "http_error option \<Rightarrow> app \<Rightarrow> app" where
  "responseInterceptor r s =
     (case r of
        None \<Rightarrow> s
      | Some e \<Rightarrow>
          if status e = 401
          then s\<lparr>ls_token := None, ls_user := None, reload_requested := True\<rparr>
          else s)"

text \<open>\<open>error.response?.data?.error\<close>.\<close>

fun errorText :: "js_error \<Rightarrow> string option" where
  "errorText (AxiosError None) = None"
| "errorText (AxiosError (Some e)) = data_error e"
| "errorText TypeError = None"

subsection \<open>\<open>loadConversations\<close>\<close>

text \<open>
  \<open>loadConversations\<close> is always awaited by its caller; \<open>k\<close> is what the caller does
  once it returns.
\<close>

definition loadConversations :: "pending_op \<Rightarrow> app \<Rightarrow> app" where
  "loadConversations k s =
     s\<lparr>isLoadingConversations := True,
       requests := requests s @ [Request GET ''/conversations'' NoPayload],
       pending := pending s @ [k]\<rparr>"

text \<open>The rest of \<open>loadConversations\<close> once \<open>GET /conversations\<close> has settled.\<close>

fun loadConversations_settled :: "conversation list response \<Rightarrow> app \<Rightarrow> app" where
  "loadConversations_settled (Resolved (Some cs)) s =
     s\<lparr>conversations := cs, isLoadingConversations := False\<rparr>"
| "loadConversations_settled (Resolved None) s =
     s\<lparr>console_errors := console_errors s @ [''Error loading conversations:''],
       isLoadingConversations := False\<rparr>"
| "loadConversations_settled (Failed r) s =
     (let s1 = responseInterceptor r s
      in s1\<lparr>console_errors := console_errors s1 @ [''Error loading conversations:''],
            isLoadingConversations := False\<rparr>)"

subsection \<open>\<open>handleLogout\<close>\<close>

definition handleLogout :: "app \<Rightarrow> app" where
  "handleLogout s =
     s\<lparr>requests := requests s @ [Request POST ''/logout'' NoPayload],
       pending := pending s @ [PendingLogout]\<rparr>"

text \<open>The \<open>finally\<close> block of \<open>handleLogout\<close>.\<close>

definition handleLogout_finally :: "app \<Rightarrow> app" where
  "handleLogout_finally s =
     s\<lparr>ls_token := None, ls_user := None, isAuthenticated := False, user := None,
       messages := [], conversations := [], currentConversationId := None,
       showAuthModal := True\<rparr>"

fun handleLogout_settled :: "unit response \<Rightarrow> app \<Rightarrow> app" where
  "handleLogout_settled (Resolved _) s = handleLogout_finally s"
| "handleLogout_settled (Failed r) s =
     (let s1 = responseInterceptor r s
      in handleLogout_finally (s1\<lparr>console_errors := console_errors s1 @ [''Logout error:'']\<rparr>))"

subsection \<open>\<open>loadConversation\<close>\<close>

definition loadConversation :: "string \<Rightarrow> app \<Rightarrow> app" where
  "loadConversation conversationId s =
     s\<lparr>isLoading := True,
       requests := requests s @ [Request GET (''/conversations/'' @ conversationId) NoPayload],
       pending := pending s @ [PendingHistory conversationId]\<rparr>"

definition conversationMessage :: "history_message \<Rightarrow> message" where
  "conversationMessage msg =
     \<lparr>role = h_role msg, content = h_content msg,
      relatedQuestions = (if h_role msg = ''assistant'' then Some [] else None)\<rparr>"

definition loadConversation_catch :: "app \<Rightarrow> app" where
  "loadConversation_catch s =
     s\<lparr>console_errors := console_errors s @ [''Error loading conversation:''],
       alerts := alerts s @ [''Failed to load conversation''],
       isLoading := False\<rparr>"

fun loadConversation_settled :: "string \<Rightarrow> history_message list response \<Rightarrow> app \<Rightarrow> app" where
  "loadConversation_settled conversationId (Resolved (Some ms)) s =
     s\<lparr>messages := map conversationMessage ms,
       currentConversationId := Some conversationId,
       sidebarOpen := False,
       isLoading := False\<rparr>"
| "loadConversation_settled conversationId (Resolved None) s = loadConversation_catch s"
| "loadConversation_settled conversationId (Failed r) s =
     loadConversation_catch (responseInterceptor r s)"

subsection \<open>\<open>deleteConversation\<close>\<close>

text \<open>The second argument is the answer of \<open>window.confirm\<close>.\<close>

definition deleteConversation :: "string \<Rightarrow> bool \<Rightarrow> app \<Rightarrow> app" where
  "deleteConversation conversationId confirmed s =
     (if \<not> confirmed then s
      else s\<lparr>requests := requests s @
               [Request DELETE (''/conversations/'' @ conversationId) NoPayload],
             pending := pending s @ [PendingDelete conversationId (currentConversationId s)]\<rparr>)"

text \<open>
  After the \<open>await\<close>, \<open>currentConversationId\<close> is still the value of the render in which
  the handler was called: \<open>captured\<close>.
\<close>

fun deleteConversation_settled ::
  "string \<Rightarrow> string option \<Rightarrow> unit response \<Rightarrow> app \<Rightarrow> app" where
  "deleteConversation_settled conversationId captured (Resolved _) s =
     loadConversations PendingRefresh
       (if Some conversationId = captured
        then s\<lparr>messages := [], currentConversationId := None\<rparr>
        else s)"
| "deleteConversation_settled conversationId captured (Failed r) s =
     (let s1 = responseInterceptor r s
      in s1\<lparr>console_errors := console_errors s1 @ [''Error deleting conversation:''],
            alerts := alerts s1 @ [''Failed to delete conversation'']\<rparr>)"

subsection \<open>The speech controller\<close>

text \<open>
  \<open>speech.speak\<close>: \<open>synthSpeaking\<close> is what \<open>this.synth.speaking\<close> reads. Each call makes a
  new utterance object, identified here by its number, and starts it.
\<close>

definition speech_speak :: "string \<Rightarrow> bool \<Rightarrow> app \<Rightarrow> app" where
  "speech_speak txt synthSpeaking s =
     s\<lparr>synth_calls := synth_calls s @ (if synthSpeaking then [SynthCancel] else [])
                        @ [SynthSpeak (utterances_created s) txt],
       utterance := Some (utterances_created s),
       utterances_created := Suc (utterances_created s)\<rparr>"

definition speech_cancel :: "app \<Rightarrow> app" where
  "speech_cancel s = s\<lparr>synth_calls := synth_calls s @ [SynthCancel]\<rparr>"

text \<open>The callback \<open>handleToggleSpeech\<close> attaches to every utterance as \<open>onend\<close>.\<close>

definition onEndCallback :: "app \<Rightarrow> app" where
  "onEndCallback s = s\<lparr>isSpeaking := False, speakingMessageId := None\<rparr>"

text \<open>
  \<open>plainText\<close> is the value of \<open>toText(markdownText)\<close>, a function of the package
  \<open>markdown-to-text\<close>.
\<close>

definition handleToggleSpeech :: "nat \<Rightarrow> string \<Rightarrow> bool \<Rightarrow> app \<Rightarrow> app" where
  "handleToggleSpeech messageId plainText synthSpeaking s =
     (if isSpeaking s \<and> speakingMessageId s = Some messageId
      then (speech_cancel s)\<lparr>isSpeaking := False, speakingMessageId := None\<rparr>
      else speech_speak plainText synthSpeaking
             (s\<lparr>isSpeaking := True, speakingMessageId := Some messageId\<rparr>))"

text \<open>The read-aloud button of message \<open>i\<close>, rendered for an assistant message.\<close>

definition clickSpeechButton :: "nat \<Rightarrow> string \<Rightarrow> bool \<Rightarrow> app \<Rightarrow> app" where
  "clickSpeechButton i plainText synthSpeaking s =
     (if i < length (messages s) \<and> role (messages s ! i) = ''assistant''
      then handleToggleSpeech i plainText synthSpeaking s
      else s)"

text \<open>The synthesiser fires \<open>onend\<close> of utterance \<open>u\<close>.\<close>

definition utterance_onend :: "nat \<Rightarrow> app \<Rightarrow> app" where
  "utterance_onend u s = (if u < utterances_created s then onEndCallback s else s)"

subsection \<open>\<open>handleSendMessage\<close>\<close>

text \<open>The function passed to \<open>setMessages\<close>.\<close>

definition sendMessage_update :: "string option \<Rightarrow> string \<Rightarrow> message list \<Rightarrow> message list" where
  "sendMessage_update queryOverride query prevMessages =
     (let lastMessageIndex = length prevMessages - 1;
          updatedMessages =
            (if truthy queryOverride \<and> 0 < length prevMessages
                \<and> role (prevMessages ! lastMessageIndex) = ''assistant''
             then prevMessages[lastMessageIndex :=
                    (prevMessages ! lastMessageIndex)\<lparr>relatedQuestions := Some []\<rparr>]
             else prevMessages)
      in updatedMessages @ [\<lparr>role = ''user'', content = query, relatedQuestions = None\<rparr>])"

text \<open>The field \<open>conversation_id\<close>, added under \<open>if (currentConversationId)\<close>.\<close>

fun conversationField :: "string option \<Rightarrow> (string \<times> string) list" where
  "conversationField None = []"
| "conversationField (Some c) = (if c = [] then [] else [(''conversation_id'', c)])"

definition chatRequest :: "string \<Rightarrow> file_obj option \<Rightarrow> string option \<Rightarrow> request" where
  "chatRequest query selected conv =
     (case selected of
        Some img \<Rightarrow>
          Request POST ''/chat_vision''
            (FormData ([(''question'', Text query), (''image'', Blob img)]
                       @ map (\<lambda>(k, v). (k, Text v)) (conversationField conv)))
      | None \<Rightarrow>
          Request POST ''/chat'' (Json ((''question'', query) # conversationField conv)))"

definition handleSendMessage :: "string option \<Rightarrow> app \<Rightarrow> app" where
  "handleSendMessage queryOverride s =
     (let query = or_else queryOverride (trim (input s))
      in if (query = [] \<and> selectedImage s = None) \<or> isLoading s then s
         else s\<lparr>messages := sendMessage_update queryOverride query (messages s),
                input := [],
                isLoading := True,
                requests := requests s @
                  [chatRequest query (selectedImage s) (currentConversationId s)],
                pending := pending s @
                  [PendingChat \<lparr>cl_selectedImage = selectedImage s,
                                cl_currentConversationId = currentConversationId s\<rparr>]\<rparr>)"

text \<open>The \<open>catch\<close> block followed by \<open>finally\<close>.\<close>

definition handleSendMessage_catch :: "js_error \<Rightarrow> app \<Rightarrow> app" where
  "handleSendMessage_catch e s =
     s\<lparr>console_errors := console_errors s @ [''Error fetching response:''],
       messages := messages s @
         [\<lparr>role = ''assistant'',
           content = or_else (errorText e) ''Sorry, something went wrong.'',
           relatedQuestions = Some []\<rparr>],
       isLoading := False\<rparr>"

text \<open>The assistant message is appended, then \<open>finally\<close> runs.\<close>

definition handleSendMessage_answer :: "chat_data \<Rightarrow> app \<Rightarrow> app" where
  "handleSendMessage_answer d s =
     s\<lparr>messages := messages s @
         [\<lparr>role = ''assistant'', content = answer d,
           relatedQuestions =
             Some (case related_questions d of None \<Rightarrow> [] | Some qs \<Rightarrow> qs)\<rparr>],
       isLoading := False\<rparr>"

text \<open>The handler resumes after \<open>await api.post(...)\<close>.\<close>

fun handleSendMessage_settled :: "turn_closure \<Rightarrow> chat_data response \<Rightarrow> app \<Rightarrow> app" where
  "handleSendMessage_settled cl (Failed r) s =
     handleSendMessage_catch (AxiosError r) (responseInterceptor r s)"
| "handleSendMessage_settled cl (Resolved od) s =
     (let s1 = (if cl_selectedImage cl \<noteq> None
                then s\<lparr>selectedImage := None, imagePreview := None\<rparr>
                else s)
      in case od of
           None \<Rightarrow> handleSendMessage_catch TypeError s1
         | Some d \<Rightarrow>
             if \<not> truthy (cl_currentConversationId cl) \<and> truthy (conversation_id d)
             then loadConversations (PendingChatRefresh d)
                    (s1\<lparr>currentConversationId := conversation_id d\<rparr>)
             else handleSendMessage_answer d s1)"

text \<open>The handler resumes after \<open>await loadConversations()\<close>.\<close>

definition handleSendMessage_refreshed :: "chat_data \<Rightarrow> conversation list response \<Rightarrow> app \<Rightarrow> app" where
  "handleSendMessage_refreshed d r s = handleSendMessage_answer d (loadConversations_settled r s)"

text \<open>
  The button of the \<open>k\<close>-th related question under message \<open>i\<close>, rendered for an
  assistant message whose \<open>relatedQuestions\<close> is a non-empty array.
\<close>

definition clickRelatedQuestion :: "nat \<Rightarrow> nat \<Rightarrow> app \<Rightarrow> app" where
  "clickRelatedQuestion i k s =
     (if i < length (messages s) \<and> role (messages s ! i) = ''assistant''
      then (case relatedQuestions (messages s ! i) of
              None \<Rightarrow> s
            | Some qs \<Rightarrow> if k < length qs then handleSendMessage (Some (qs ! k)) s else s)
      else s)"

subsection \<open>\<open>createNewConversation\<close>\<close>

definition createNewConversation :: "app \<Rightarrow> app" where
  "createNewConversation s =
     s\<lparr>requests := requests s @ [Request POST ''/conversations/new'' NoPayload],
       pending := pending s @ [PendingCreate]\<rparr>"

definition createNewConversation_catch :: "app \<Rightarrow> app" where
  "createNewConversation_catch s =
     s\<lparr>console_errors := console_errors s @ [''Error creating new conversation:''],
       currentConversationId := None,
       messages := [],
       sidebarOpen := False\<rparr>"

fun createNewConversation_settled :: "string response \<Rightarrow> app \<Rightarrow> app" where
  "createNewConversation_settled (Resolved (Some newConversationId)) s =
     loadConversations PendingRefresh
       (s\<lparr>currentConversationId := Some newConversationId,
          messages := [],
          sidebarOpen := False\<rparr>)"
| "createNewConversation_settled (Resolved None) s = createNewConversation_catch s"
| "createNewConversation_settled (Failed r) s =
     createNewConversation_catch (responseInterceptor r s)"

subsection \<open>Files, documents and voice\<close>

definition handleDocumentUpload :: "file_obj \<Rightarrow> app \<Rightarrow> app" where
  "handleDocumentUpload f s =
     s\<lparr>messages := messages s @
         [\<lparr>role = ''system'', content = ''Uploading '' @ file_name f @ ''...'',
           relatedQuestions = None\<rparr>],
       requests := requests s @
         [Request POST ''/upload_document'' (FormData [(''file'', Blob f)])],
       pending := pending s @ [PendingUpload]\<rparr>"

definition handleDocumentUpload_catch :: "js_error \<Rightarrow> app \<Rightarrow> app" where
  "handleDocumentUpload_catch e s =
     s\<lparr>messages := messages s @
         [\<lparr>role = ''system'', content = or_else (errorText e) ''File upload failed.'',
           relatedQuestions = None\<rparr>]\<rparr>"

text \<open>
  After the \<open>await\<close> the handler passes \<open>setMessages\<close> a function that reads
  \<open>response.data.message\<close>. React calls that function when it renders, not inside the
  handler's \<open>try\<close>: for a response whose \<open>data\<close> is \<open>null\<close> the \<open>TypeError\<close> is thrown
  there, the \<open>catch\<close> block does not run and the component is unmounted.
\<close>

fun handleDocumentUpload_settled :: "string response \<Rightarrow> app \<Rightarrow> app" where
  "handleDocumentUpload_settled (Resolved (Some msg)) s =
     s\<lparr>messages := messages s @
         [\<lparr>role = ''system'', content = msg, relatedQuestions = None\<rparr>]\<rparr>"
| "handleDocumentUpload_settled (Resolved None) s = s\<lparr>unmounted := True\<rparr>"
| "handleDocumentUpload_settled (Failed r) s =
     handleDocumentUpload_catch (AxiosError r) (responseInterceptor r s)"

text \<open>
  \<open>handleFileChange\<close>: the first argument is \<open>event.target.files[0]\<close>, the second the
  URL that \<open>URL.createObjectURL\<close> returns for it.
\<close>

definition handleFileChange :: "file_obj option \<Rightarrow> string \<Rightarrow> app \<Rightarrow> app" where
  "handleFileChange chosen objectUrl s =
     (case chosen of
        None \<Rightarrow> s
      | Some f \<Rightarrow>
          if takeWhile (\<lambda>c. c \<noteq> CHR ''/'') (file_type f) = ''image''
          then s\<lparr>selectedImage := Some f, imagePreview := Some objectUrl\<rparr>
          else handleDocumentUpload f s)"

text \<open>The button that discards the staged image.\<close>

definition removeImage :: "app \<Rightarrow> app" where
  "removeImage s = s\<lparr>selectedImage := None, imagePreview := None\<rparr>"

text \<open>
  \<open>handleTranscription\<close>, called when a recording is complete; the argument is the
  type of the recorded blob.
\<close>

definition handleTranscription :: "string \<Rightarrow> app \<Rightarrow> app" where
  "handleTranscription blobType s =
     s\<lparr>requests := requests s @
         [Request POST ''/transcribe''
            (FormData [(''audio'', Blob \<lparr>file_name = ''audio.webm'', file_type = blobType\<rparr>)])],
       pending := pending s @ [PendingTranscribe]\<rparr>"

definition handleTranscription_catch :: "app \<Rightarrow> app" where
  "handleTranscription_catch s =
     s\<lparr>console_errors := console_errors s @ [''Error transcribing audio:''],
       alerts := alerts s @ [''Audio transcription failed.'']\<rparr>"

text \<open>
  The function passed to \<open>setInput\<close> reads \<open>response.data.transcription\<close> when React
  renders: for a response whose \<open>data\<close> is \<open>null\<close> the \<open>TypeError\<close> is thrown outside the
  handler's \<open>try\<close>, so there is no alert and the component is unmounted.
\<close>

fun handleTranscription_settled :: "string response \<Rightarrow> app \<Rightarrow> app" where
  "handleTranscription_settled (Resolved (Some transcription)) s =
     s\<lparr>input := (if input s \<noteq> [] then input s @ '' '' else []) @ transcription\<rparr>"
| "handleTranscription_settled (Resolved None) s = s\<lparr>unmounted := True\<rparr>"
| "handleTranscription_settled (Failed r) s =
     handleTranscription_catch (responseInterceptor r s)"

subsection \<open>Events\<close>

text \<open>
  What the user, the recorder, the synthesiser and the network do to the conversation
  view; logging in, registering and the verification at start-up are left out.
  \<open>Settle n b\<close> settles the \<open>n\<close>-th pending request with \<open>b\<close>; the body of a fulfilled
  request has the shape the backend gives that endpoint, and a settlement of any other
  shape does not occur.
\<close>

datatype body =
    ChatBody chat_data
  | HistoryBody "history_message list"
  | ConversationsBody "conversation list"
  | NewConversationBody string
  | UploadBody string
  | TranscriptionBody string
  | NullBody

datatype outcome = Fulfilled body | Rejected "http_error option"

datatype event =
    SendMessage "string option"
  | ClickRelatedQuestion nat nat
  | SelectConversation string
  | DeleteConversation string bool
  | Logout
  | ToggleSpeech nat string bool
  | UtteranceEnd nat
  | NewConversation
  | FileChange "file_obj option" string
  | RemoveImage
  | SetInput string
  | AudioRecorded string
  | Settle nat outcome

fun asChat :: "outcome \<Rightarrow> chat_data response option" where
  "asChat (Fulfilled (ChatBody d)) = Some (Resolved (Some d))"
| "asChat (Fulfilled NullBody) = Some (Resolved None)"
| "asChat (Fulfilled _) = None"
| "asChat (Rejected r) = Some (Failed r)"

fun asHistory :: "outcome \<Rightarrow> history_message list response option" where
  "asHistory (Fulfilled (HistoryBody ms)) = Some (Resolved (Some ms))"
| "asHistory (Fulfilled NullBody) = Some (Resolved None)"
| "asHistory (Fulfilled _) = None"
| "asHistory (Rejected r) = Some (Failed r)"

fun asConversations :: "outcome \<Rightarrow> conversation list response option" where
  "asConversations (Fulfilled (ConversationsBody cs)) = Some (Resolved (Some cs))"
| "asConversations (Fulfilled NullBody) = Some (Resolved None)"
| "asConversations (Fulfilled _) = None"
| "asConversations (Rejected r) = Some (Failed r)"

fun asNewConversation :: "outcome \<Rightarrow> string response option" where
  "asNewConversation (Fulfilled (NewConversationBody c)) = Some (Resolved (Some c))"
| "asNewConversation (Fulfilled NullBody) = Some (Resolved None)"
| "asNewConversation (Fulfilled _) = None"
| "asNewConversation (Rejected r) = Some (Failed r)"

fun asUpload :: "outcome \<Rightarrow> string response option" where
  "asUpload (Fulfilled (UploadBody m)) = Some (Resolved (Some m))"
| "asUpload (Fulfilled NullBody) = Some (Resolved None)"
| "asUpload (Fulfilled _) = None"
| "asUpload (Rejected r) = Some (Failed r)"

fun asTranscription :: "outcome \<Rightarrow> string response option" where
  "asTranscription (Fulfilled (TranscriptionBody m)) = Some (Resolved (Some m))"
| "asTranscription (Fulfilled NullBody) = Some (Resolved None)"
| "asTranscription (Fulfilled _) = None"
| "asTranscription (Rejected r) = Some (Failed r)"

text \<open>\<open>DELETE /conversations/{id}\<close> and \<open>POST /logout\<close>: the response is not read.\<close>

fun asAny :: "outcome \<Rightarrow> unit response" where
  "asAny (Fulfilled _) = Resolved None"
| "asAny (Rejected r) = Failed r"

definition unpend :: "nat \<Rightarrow> app \<Rightarrow> app" where
  "unpend n s = s\<lparr>pending := take n (pending s) @ drop (Suc n) (pending s)\<rparr>"

fun resume :: "pending_op \<Rightarrow> outcome \<Rightarrow> app \<Rightarrow> app option" where
  "resume (PendingChat cl) b s = map_option (\<lambda>r. handleSendMessage_settled cl r s) (asChat b)"
| "resume (PendingChatRefresh d) b s =
     map_option (\<lambda>r. handleSendMessage_refreshed d r s) (asConversations b)"
| "resume (PendingHistory c) b s =
     map_option (\<lambda>r. loadConversation_settled c r s) (asHistory b)"
| "resume (PendingDelete c captured) b s = Some (deleteConversation_settled c captured (asAny b) s)"
| "resume PendingRefresh b s = map_option (\<lambda>r. loadConversations_settled r s) (asConversations b)"
| "resume PendingLogout b s = Some (handleLogout_settled (asAny b) s)"
| "resume PendingCreate b s =
     map_option (\<lambda>r. createNewConversation_settled r s) (asNewConversation b)"
| "resume PendingUpload b s = map_option (\<lambda>r. handleDocumentUpload_settled r s) (asUpload b)"
| "resume PendingTranscribe b s =
     map_option (\<lambda>r. handleTranscription_settled r s) (asTranscription b)"

definition settle :: "nat \<Rightarrow> outcome \<Rightarrow> app \<Rightarrow> app" where
  "settle n b s =
     (if n < length (pending s)
      then (case resume (pending s ! n) b (unpend n s) of None \<Rightarrow> s | Some s' \<Rightarrow> s')
      else s)"

fun step :: "event \<Rightarrow> app \<Rightarrow> app" where
  "step (SendMessage q) s = handleSendMessage q s"
| "step (ClickRelatedQuestion i k) s = clickRelatedQuestion i k s"
| "step (SelectConversation c) s = loadConversation c s"
| "step (DeleteConversation c confirmed) s = deleteConversation c confirmed s"
| "step Logout s = handleLogout s"
| "step (ToggleSpeech i plainText speaking) s = clickSpeechButton i plainText speaking s"
| "step (UtteranceEnd u) s = utterance_onend u s"
| "step NewConversation s = createNewConversation s"
| "step (FileChange chosen objectUrl) s = handleFileChange chosen objectUrl s"
| "step RemoveImage s = removeImage s"
| "step (SetInput v) s = s\<lparr>input := v\<rparr>"
| "step (AudioRecorded blobType) s = handleTranscription blobType s"
| "step (Settle n b) s = settle n b s"

fun run :: "event list \<Rightarrow> app \<Rightarrow> app" where
  "run [] s = s"
| "run (e # es) s = run es (step e s)"

text \<open>The state of \<open>App\<close> when it is first rendered, with the stored session given.\<close>

definition initial :: "string option \<Rightarrow> user_info option \<Rightarrow> app" where
  "initial tok usr =
     \<lparr>ls_token = tok, ls_user = usr, isAuthenticated = False, user = None,
      showAuthModal = False, messages = [], input = [], isLoading = False,
      selectedImage = None, imagePreview = None, isSpeaking = False,
      speakingMessageId = None, conversations = [], currentConversationId = None,
      sidebarOpen = False, isLoadingConversations = True, utterance = None,
      utterances_created = 0, synth_calls = [], requests = [], pending = [],
      alerts = [], console_errors = [], reload_requested = False, unmounted = False\<rparr>"

text \<open>
  A state of the conversation view: a stored session has been verified and the
  conversation list, empty so far, has been loaded.
\<close>

definition signedIn :: app where
  "signedIn =
     (initial (Some ''token-1'') (Some \<lparr>username = ''ann'', user_id = ''u1''\<rparr>))
       \<lparr>isAuthenticated := True,
        user := Some \<lparr>username = ''ann'', user_id = ''u1''\<rparr>,
        isLoadingConversations := False\<rparr>"

subsection \<open>Reading a request\<close>

fun req_method :: "request \<Rightarrow> http_method" where
  "req_method (Request m u p) = m"

fun req_url :: "request \<Rightarrow> string" where
  "req_url (Request m u p) = u"

fun req_payload :: "request \<Rightarrow> payload" where
  "req_payload (Request m u p) = p"

fun multipart :: "payload \<Rightarrow> bool" where
  "multipart (FormData fs) = True"
| "multipart (Json fs) = False"
| "multipart NoPayload = False"

fun payload_fields :: "payload \<Rightarrow> (string \<times> field_value) list" where
  "payload_fields (FormData fs) = fs"
| "payload_fields (Json fs) = map (\<lambda>(k, v). (k, Text v)) fs"
| "payload_fields NoPayload = []"

subsection \<open>Turns in flight\<close>






text \<open>The event settles a request a turn or a conversation load is waiting for.\<close>

fun settlesTurnOrLoad :: "app \<Rightarrow> event \<Rightarrow> bool" where
  "settlesTurnOrLoad s (Settle n b) =
     (n < length (pending s) \<and>
      (case pending s ! n of
         PendingChat cl \<Rightarrow> True
       | PendingChatRefresh d \<Rightarrow> True
       | PendingHistory c \<Rightarrow> True
       | _ \<Rightarrow> False))"
| "settlesTurnOrLoad s _ = False"

text \<open>No event of the sequence, run from \<open>s\<close>, settles a turn or a conversation load.\<close>

fun quiet :: "event list \<Rightarrow> app \<Rightarrow> bool" where
  "quiet [] s = True"
| "quiet (e # es) s = (\<not> settlesTurnOrLoad s e \<and> quiet es (step e s))"

section \<open>Properties\<close>

subsection \<open>Auxiliary facts\<close>

lemma responseInterceptor_fields [simp]:
  "messages (responseInterceptor r s) = messages s"
  "currentConversationId (responseInterceptor r s) = currentConversationId s"
  "conversations (responseInterceptor r s) = conversations s"
  "isLoading (responseInterceptor r s) = isLoading s"
  "selectedImage (responseInterceptor r s) = selectedImage s"
  "imagePreview (responseInterceptor r s) = imagePreview s"
  "pending (responseInterceptor r s) = pending s"
  "requests (responseInterceptor r s) = requests s"
  "alerts (responseInterceptor r s) = alerts s"
  "input (responseInterceptor r s) = input s"
  by (simp_all add: responseInterceptor_def split: option.split)

lemma loadConversations_fields [simp]:
  "messages (loadConversations k s) = messages s"
  "currentConversationId (loadConversations k s) = currentConversationId s"
  "isLoading (loadConversations k s) = isLoading s"
  "selectedImage (loadConversations k s) = selectedImage s"
  "imagePreview (loadConversations k s) = imagePreview s"
  "pending (loadConversations k s) = pending s @ [k]"
  "requests (loadConversations k s) = requests s @ [Request GET ''/conversations'' NoPayload]"
  "isLoadingConversations (loadConversations k s)"
  by (simp_all add: loadConversations_def)

text \<open>Settling the request that was issued last resumes the handler that issued it.\<close>

lemma settle_last:
  "pending s1 = ps @ [k] \<Longrightarrow>
   settle (length ps) b s1 =
     (case resume k b (s1\<lparr>pending := ps\<rparr>) of None \<Rightarrow> s1 | Some s' \<Rightarrow> s')"
  by (simp add: settle_def unpend_def)

subsection \<open>Logout\<close>

text \<open>
  C8. However the request \<open>POST /logout\<close> settles (fulfilled, rejected with or without a
  response), once \<open>handleLogout\<close> resumes the stored token and user, the user, the message
  list, the conversation list and the active conversation id are cleared, the client is
  unauthenticated and the login dialogue is shown. The first half states this of the
  resumed handler in any state, the second of a logout whose request settles next.
\<close>

theorem logout_clears_session_and_state:
  "(let s' = handleLogout_settled r s
    in ls_token s' = None \<and> ls_user s' = None \<and> user s' = None \<and> \<not> isAuthenticated s'
       \<and> messages s' = [] \<and> conversations s' = [] \<and> currentConversationId s' = None
       \<and> showAuthModal s')
   \<and> (let s' = settle (length (pending s)) b (handleLogout s)
    in ls_token s' = None \<and> ls_user s' = None \<and> user s' = None \<and> \<not> isAuthenticated s'
       \<and> messages s' = [] \<and> conversations s' = [] \<and> currentConversationId s' = None
       \<and> showAuthModal s')"
proof -
  have fin: "\<And>t. let s' = handleLogout_finally t
    in ls_token s' = None \<and> ls_user s' = None \<and> user s' = None \<and> \<not> isAuthenticated s'
       \<and> messages s' = [] \<and> conversations s' = [] \<and> currentConversationId s' = None
       \<and> showAuthModal s'"
    by (simp add: handleLogout_finally_def)
  have a: "\<exists>u. handleLogout_settled r' t = handleLogout_finally u" for r' t
    by (cases r') (auto simp: Let_def)
  have p: "pending (handleLogout s) = pending s @ [PendingLogout]"
    by (simp add: handleLogout_def)
  have "\<exists>u. settle (length (pending s)) b (handleLogout s) = handleLogout_finally u"
    using a by (simp add: settle_last [OF p])
  with a [of r s] fin show ?thesis by (auto simp: Let_def)
qed

subsection \<open>Messages loaded from history\<close>

text \<open>
  C9. When \<open>GET /conversations/{id}\<close> is fulfilled with a history, every message of the
  resulting list whose role is \<open>assistant\<close> has the empty array as \<open>relatedQuestions\<close>
  and every other message has none (\<open>undefined\<close>), whatever the history held.
\<close>

theorem history_has_no_suggestions:
  "\<forall>m \<in> set (messages (loadConversation_settled c (Resolved (Some ms)) s)).
     (role m = ''assistant'' \<longrightarrow> relatedQuestions m = Some [])
     \<and> (role m \<noteq> ''assistant'' \<longrightarrow> relatedQuestions m = None)"
  by (auto simp: conversationMessage_def)

theorem history_has_no_suggestions_witness:
  "(let ms = messages (loadConversation_settled ''c1''
                (Resolved (Some [\<lparr>h_role = ''user'', h_content = ''What is tort law?''\<rparr>,
                                 \<lparr>h_role = ''assistant'', h_content = ''A civil wrong.''\<rparr>]))
                (signedIn))
    in length ms = 2 \<and> role (ms ! 0) = ''user'' \<and> relatedQuestions (ms ! 0) = None
       \<and> role (ms ! 1) = ''assistant'' \<and> relatedQuestions (ms ! 1) = Some [])"
  using history_has_no_suggestions
    [of "''c1''" "[\<lparr>h_role = ''user'', h_content = ''What is tort law?''\<rparr>,
                   \<lparr>h_role = ''assistant'', h_content = ''A civil wrong.''\<rparr>]"
        "signedIn"]
  by (simp add: Let_def conversationMessage_def)

subsection \<open>Selecting a conversation\<close>

text \<open>
  C6. When the history request of \<open>loadConversation\<close> is rejected, the message list and
  the active conversation id are what they were and the alert
  \<open>Failed to load conversation\<close> is raised: this holds of the resumed handler in any
  state, and of a call whose request is rejected next, compared with the state before the
  call. When the request is fulfilled with a history, the message list becomes the
  history, message by message in the same order with the same roles and contents, and the
  active id becomes the selected id.
\<close>

theorem select_failure_keeps_state_success_replaces:
  "(let s' = loadConversation_settled c (Failed r) s
    in messages s' = messages s \<and> currentConversationId s' = currentConversationId s
       \<and> alerts s' = alerts s @ [''Failed to load conversation''])
   \<and> (let s' = settle (length (pending s)) (Rejected r) (loadConversation c s)
    in messages s' = messages s \<and> currentConversationId s' = currentConversationId s
       \<and> alerts s' = alerts s @ [''Failed to load conversation''])
   \<and> (let s' = settle (length (pending s)) (Fulfilled (HistoryBody ms)) (loadConversation c s)
    in messages s' = map conversationMessage ms \<and> currentConversationId s' = Some c
       \<and> map role (messages s') = map h_role ms
       \<and> map content (messages s') = map h_content ms)"
proof -
  have p: "pending (loadConversation c s) = pending s @ [PendingHistory c]"
    by (simp add: loadConversation_def)
  have f: "let s' = loadConversation_settled c (Failed r) t
    in messages s' = messages t \<and> currentConversationId s' = currentConversationId t
       \<and> alerts s' = alerts t @ [''Failed to load conversation'']" for t
    by (simp add: loadConversation_catch_def)
  have g: "messages (loadConversation c s\<lparr>pending := pending s\<rparr>) = messages s"
     "currentConversationId (loadConversation c s\<lparr>pending := pending s\<rparr>)
        = currentConversationId s"
     "alerts (loadConversation c s\<lparr>pending := pending s\<rparr>) = alerts s"
    by (simp_all add: loadConversation_def)
  have 2: "let s' = settle (length (pending s)) (Rejected r) (loadConversation c s)
    in messages s' = messages s \<and> currentConversationId s' = currentConversationId s
       \<and> alerts s' = alerts s @ [''Failed to load conversation'']"
    using f [of "loadConversation c s\<lparr>pending := pending s\<rparr>"] g
    by (simp add: settle_last [OF p] Let_def)
  have 3: "let s' = settle (length (pending s)) (Fulfilled (HistoryBody ms)) (loadConversation c s)
    in messages s' = map conversationMessage ms \<and> currentConversationId s' = Some c
       \<and> map role (messages s') = map h_role ms
       \<and> map content (messages s') = map h_content ms"
    by (simp add: settle_last [OF p] Let_def conversationMessage_def comp_def)
  from f [of s] 2 3 show ?thesis by blast
qed

subsection \<open>Deleting a conversation\<close>

text \<open>
  C7. When \<open>DELETE /conversations/{id}\<close> is fulfilled: if the deleted id was the active
  conversation the message list becomes empty and the active id none, otherwise both stay
  as they are; in both cases \<open>GET /conversations\<close> is issued next, and the conversation
  list becomes what that request delivers. The first half states this of the resumed
  handler in any state, where "was active" is the value the handler captured when it was
  called; the second of a confirmed deletion whose request is fulfilled next.
\<close>

theorem delete_clears_active_and_refreshes:
  "(let s' = deleteConversation_settled c captured (Resolved x) s
    in (if captured = Some c
        then messages s' = [] \<and> currentConversationId s' = None
        else messages s' = messages s \<and> currentConversationId s' = currentConversationId s)
       \<and> requests s' = requests s @ [Request GET ''/conversations'' NoPayload]
       \<and> pending s' = pending s @ [PendingRefresh])
   \<and> (let s' = settle (length (pending s)) (Fulfilled b) (deleteConversation c True s)
    in (if currentConversationId s = Some c
        then messages s' = [] \<and> currentConversationId s' = None
        else messages s' = messages s \<and> currentConversationId s' = currentConversationId s)
       \<and> requests s' = requests s @ [Request DELETE (''/conversations/'' @ c) NoPayload,
                                       Request GET ''/conversations'' NoPayload]
       \<and> pending s' = pending s @ [PendingRefresh]
       \<and> conversations (settle (length (pending s)) (Fulfilled (ConversationsBody cs)) s') = cs)"
proof -
  have p: "pending (deleteConversation c True s)
           = pending s @ [PendingDelete c (currentConversationId s)]"
    by (simp add: deleteConversation_def)
  have 1: "let s' = deleteConversation_settled c captured (Resolved x) s
    in (if captured = Some c
        then messages s' = [] \<and> currentConversationId s' = None
        else messages s' = messages s \<and> currentConversationId s' = currentConversationId s)
       \<and> requests s' = requests s @ [Request GET ''/conversations'' NoPayload]
       \<and> pending s' = pending s @ [PendingRefresh]"
    by (auto simp: Let_def)
  define s' where "s' = settle (length (pending s)) (Fulfilled b) (deleteConversation c True s)"
  have e: "s' = deleteConversation_settled c (currentConversationId s) (Resolved None)
                  (deleteConversation c True s\<lparr>pending := pending s\<rparr>)"
    by (simp add: s'_def settle_last [OF p])
  have q: "pending s' = pending s @ [PendingRefresh]"
    by (simp add: e deleteConversation_def)
  have 2: "(if currentConversationId s = Some c
        then messages s' = [] \<and> currentConversationId s' = None
        else messages s' = messages s \<and> currentConversationId s' = currentConversationId s)"
    by (auto simp: e deleteConversation_def)
  have 3: "requests s' = requests s @ [Request DELETE (''/conversations/'' @ c) NoPayload,
                                       Request GET ''/conversations'' NoPayload]"
    by (simp add: e deleteConversation_def)
  have 4: "conversations (settle (length (pending s)) (Fulfilled (ConversationsBody cs)) s') = cs"
    by (simp add: settle_last [OF q])
  from 1 2 3 4 q show ?thesis unfolding s'_def [symmetric] by (simp add: Let_def)
qed

subsection \<open>A turn\<close>

lemma handleSendMessage_accepted:
  assumes "\<not> isLoading s" and "or_else q (trim (input s)) \<noteq> [] \<or> selectedImage s \<noteq> None"
  shows "handleSendMessage q s =
     s\<lparr>messages := sendMessage_update q (or_else q (trim (input s))) (messages s),
       input := [],
       isLoading := True,
       requests := requests s @
         [chatRequest (or_else q (trim (input s))) (selectedImage s) (currentConversationId s)],
       pending := pending s @
         [PendingChat \<lparr>cl_selectedImage = selectedImage s,
                       cl_currentConversationId = currentConversationId s\<rparr>]\<rparr>"
  using assms by (auto simp: handleSendMessage_def Let_def)

lemma handleSendMessage_busy: "isLoading s \<Longrightarrow> handleSendMessage q s = s"
  by (simp add: handleSendMessage_def Let_def)

text \<open>
  C4. When the chat request of a turn is rejected, the resumed handler appends exactly
  one message: its role is \<open>assistant\<close>, its content the \<open>error\<close> text of the response if
  there is a non-empty one and \<open>Sorry, something went wrong.\<close> otherwise, and its
  \<open>relatedQuestions\<close> the empty array; the staged image and its preview stay as they are
  and \<open>isLoading\<close> is false. For an accepted submission whose request is rejected next,
  the message list is the one the submission left plus that message, the staged image
  and preview are those before the submission, and no request is pending any more.
\<close>

theorem failed_turn_appends_error_message:
  "(let s' = handleSendMessage_settled cl (Failed r) s
    in messages s' = messages s @
         [\<lparr>role = ''assistant'',
           content = (case r of
                        None \<Rightarrow> ''Sorry, something went wrong.''
                      | Some e \<Rightarrow>
                          (case data_error e of
                             None \<Rightarrow> ''Sorry, something went wrong.''
                           | Some t \<Rightarrow> if t = [] then ''Sorry, something went wrong.'' else t)),
           relatedQuestions = Some []\<rparr>]
       \<and> selectedImage s' = selectedImage s \<and> imagePreview s' = imagePreview s
       \<and> \<not> isLoading s')
   \<and> (\<not> isLoading s \<and> (or_else q (trim (input s)) \<noteq> [] \<or> selectedImage s \<noteq> None) \<longrightarrow>
       (let s1 = handleSendMessage q s;
            s' = settle (length (pending s)) (Rejected r) s1
        in messages s' = messages s1 @
             [\<lparr>role = ''assistant'',
               content = (case r of
                        None \<Rightarrow> ''Sorry, something went wrong.''
                      | Some e \<Rightarrow>
                          (case data_error e of
                             None \<Rightarrow> ''Sorry, something went wrong.''
                           | Some t \<Rightarrow> if t = [] then ''Sorry, something went wrong.'' else t)),
               relatedQuestions = Some []\<rparr>]
           \<and> selectedImage s' = selectedImage s \<and> imagePreview s' = imagePreview s
           \<and> \<not> isLoading s' \<and> pending s' = pending s))"
proof -
  have f: "let s' = handleSendMessage_settled cl (Failed r) t
    in messages s' = messages t @
         [\<lparr>role = ''assistant'',
           content = (case r of
                        None \<Rightarrow> ''Sorry, something went wrong.''
                      | Some e \<Rightarrow>
                          (case data_error e of
                             None \<Rightarrow> ''Sorry, something went wrong.''
                           | Some t \<Rightarrow> if t = [] then ''Sorry, something went wrong.'' else t)),
           relatedQuestions = Some []\<rparr>]
       \<and> selectedImage s' = selectedImage t \<and> imagePreview s' = imagePreview t
       \<and> \<not> isLoading s'" for t
    by (simp add: handleSendMessage_catch_def Let_def split: option.split)
  have g: "let s1 = handleSendMessage q s;
            s' = settle (length (pending s)) (Rejected r) s1
        in messages s' = messages s1 @
             [\<lparr>role = ''assistant'',
               content = (case r of
                        None \<Rightarrow> ''Sorry, something went wrong.''
                      | Some e \<Rightarrow>
                          (case data_error e of
                             None \<Rightarrow> ''Sorry, something went wrong.''
                           | Some t \<Rightarrow> if t = [] then ''Sorry, something went wrong.'' else t)),
               relatedQuestions = Some []\<rparr>]
           \<and> selectedImage s' = selectedImage s \<and> imagePreview s' = imagePreview s
           \<and> \<not> isLoading s' \<and> pending s' = pending s"
    if a: "\<not> isLoading s" "or_else q (trim (input s)) \<noteq> [] \<or> selectedImage s \<noteq> None"
  proof -
    let ?cl = "\<lparr>cl_selectedImage = selectedImage s,
                cl_currentConversationId = currentConversationId s\<rparr>"
    have p: "pending (handleSendMessage q s) = pending s @ [PendingChat ?cl]"
      by (simp add: handleSendMessage_accepted [OF a])
    have e: "settle (length (pending s)) (Rejected r) (handleSendMessage q s)
             = handleSendMessage_settled ?cl (Failed r)
                 (handleSendMessage q s\<lparr>pending := pending s\<rparr>)"
      by (simp add: settle_last [OF p])
    show ?thesis
      unfolding Let_def e
      by (simp add: handleSendMessage_accepted [OF a] handleSendMessage_catch_def
          split: option.split)
  qed
  from f [of s] g show ?thesis by blast
qed

theorem failed_turn_appends_error_message_witness:
  "(let s = (signedIn)\<lparr>input := ''What is tort law?''\<rparr>;
        s' = settle 0 (Rejected (Some \<lparr>status = 500, data_error = Some ''Server busy''\<rparr>))
               (handleSendMessage None s)
    in \<not> isLoading s \<and> or_else None (trim (input s)) \<noteq> []
       \<and> messages s' =
           [\<lparr>role = ''user'', content = ''What is tort law?'', relatedQuestions = None\<rparr>,
            \<lparr>role = ''assistant'', content = ''Server busy'', relatedQuestions = Some []\<rparr>]
       \<and> selectedImage s' = None \<and> imagePreview s' = None \<and> \<not> isLoading s'
       \<and> pending s' = [])"
  using failed_turn_appends_error_message
    [of "\<lparr>cl_selectedImage = None, cl_currentConversationId = None\<rparr>"
        "Some \<lparr>status = 500, data_error = Some ''Server busy''\<rparr>"
        "(signedIn)\<lparr>input := ''What is tort law?''\<rparr>" None]
  by (simp add: Let_def signedIn_def initial_def handleSendMessage_def trim_def isWhiteSpace_def
      sendMessage_update_def settle_def unpend_def handleSendMessage_catch_def
      responseInterceptor_def chatRequest_def)

text \<open>
  C5. An accepted submission (not busy; a non-empty query or a staged image) issues
  exactly one request, a \<open>POST\<close>. With a staged image it goes to \<open>/chat_vision\<close> as
  multipart form data with the fields \<open>question\<close> and \<open>image\<close>; without one it goes to
  \<open>/chat\<close> as JSON with the field \<open>question\<close>. In both cases the field
  \<open>conversation_id\<close> follows, carrying the active id, exactly when there is an active
  conversation, which the handler tests as \<open>if (currentConversationId)\<close>: the id is
  neither \<open>null\<close> nor the empty string.
\<close>

theorem submit_routes_by_attachment:
  assumes "\<not> isLoading s"
    and "or_else q (trim (input s)) \<noteq> [] \<or> selectedImage s \<noteq> None"
  shows "let query = or_else q (trim (input s));
             conv = (case currentConversationId s of
                       None \<Rightarrow> []
                     | Some c \<Rightarrow> if c = [] then [] else [(''conversation_id'', Text c)]);
             rs = requests (handleSendMessage q s);
             req = last rs
         in rs = requests s @ [req] \<and> req_method req = POST
            \<and> (case selectedImage s of
                  Some img \<Rightarrow>
                    req_url req = ''/chat_vision'' \<and> multipart (req_payload req)
                    \<and> payload_fields (req_payload req)
                        = [(''question'', Text query), (''image'', Blob img)] @ conv
                | None \<Rightarrow>
                    req_url req = ''/chat'' \<and> \<not> multipart (req_payload req)
                    \<and> payload_fields (req_payload req) = [(''question'', Text query)] @ conv)
            \<and> ((''conversation_id'' \<in> fst ` set (payload_fields (req_payload req)))
                 = truthy (currentConversationId s))"
proof -
  have c: "map (\<lambda>(k, v). (k, Text v)) (conversationField (currentConversationId s))
           = (case currentConversationId s of
                None \<Rightarrow> []
              | Some c \<Rightarrow> if c = [] then [] else [(''conversation_id'', Text c)])"
    by (cases "currentConversationId s") simp_all
  have d: "(''conversation_id'' \<in> fst ` set (map (\<lambda>(k, v). (k, Text v))
              (conversationField (currentConversationId s))))
           = truthy (currentConversationId s)"
    by (cases "currentConversationId s") simp_all
  show ?thesis
  proof (cases "selectedImage s")
    case None
    with c d show ?thesis
      by (simp add: handleSendMessage_accepted [OF assms] chatRequest_def Let_def)
  next
    case (Some img)
    with c d show ?thesis
      by (simp add: handleSendMessage_accepted [OF assms] chatRequest_def Let_def)
  qed
qed

theorem submit_routes_by_attachment_witness:
  "(let s = (signedIn)\<lparr>input := ''Explain this clause'',
              selectedImage := Some \<lparr>file_name = ''clause.png'', file_type = ''image/png''\<rparr>,
              currentConversationId := Some ''c1''\<rparr>
    in \<not> isLoading s \<and> or_else None (trim (input s)) \<noteq> []
       \<and> requests (handleSendMessage None s) =
           [Request POST ''/chat_vision''
              (FormData [(''question'', Text ''Explain this clause''),
                         (''image'', Blob \<lparr>file_name = ''clause.png'', file_type = ''image/png''\<rparr>),
                         (''conversation_id'', Text ''c1'')])])"
  using submit_routes_by_attachment
    [of "(signedIn)\<lparr>input := ''Explain this clause'',
              selectedImage := Some \<lparr>file_name = ''clause.png'', file_type = ''image/png''\<rparr>,
              currentConversationId := Some ''c1''\<rparr>" None]
  by (simp add: Let_def signedIn_def initial_def handleSendMessage_def trim_def isWhiteSpace_def
      chatRequest_def)

text \<open>
  C3 (as amended). An accepted submission with a non-empty override text appends the user
  message with that text; before that, if the last message of the list has role
  \<open>assistant\<close> its \<open>relatedQuestions\<close> become the empty array, and every other message
  is kept as it is, whichever message the suggestion was shown under. An accepted
  submission without override text appends the user message and keeps every message.
\<close>

theorem override_clears_last_message_if_assistant:
  "(\<not> isLoading s \<and> t \<noteq> [] \<longrightarrow>
      (let ms = messages s; ms' = messages (handleSendMessage (Some t) s)
       in length ms' = length ms + 1
          \<and> ms' ! length ms = \<lparr>role = ''user'', content = t, relatedQuestions = None\<rparr>
          \<and> (\<forall>i < length ms.
                ms' ! i = (if i = length ms - 1 \<and> role (ms ! i) = ''assistant''
                           then (ms ! i)\<lparr>relatedQuestions := Some []\<rparr>
                           else ms ! i))))
   \<and> (\<not> isLoading s \<and> (trim (input s) \<noteq> [] \<or> selectedImage s \<noteq> None) \<longrightarrow>
        messages (handleSendMessage None s)
          = messages s @ [\<lparr>role = ''user'', content = trim (input s), relatedQuestions = None\<rparr>])"
proof -
  have 1: "let ms = messages s; ms' = messages (handleSendMessage (Some t) s)
       in length ms' = length ms + 1
          \<and> ms' ! length ms = \<lparr>role = ''user'', content = t, relatedQuestions = None\<rparr>
          \<and> (\<forall>i < length ms.
                ms' ! i = (if i = length ms - 1 \<and> role (ms ! i) = ''assistant''
                           then (ms ! i)\<lparr>relatedQuestions := Some []\<rparr>
                           else ms ! i))"
    if a: "\<not> isLoading s" "t \<noteq> []"
  proof -
    from a have acc: "or_else (Some t) (trim (input s)) \<noteq> [] \<or> selectedImage s \<noteq> None"
      by simp
    from a have m: "messages (handleSendMessage (Some t) s)
                    = sendMessage_update (Some t) t (messages s)"
      by (simp add: handleSendMessage_accepted [OF a(1) acc])
    show ?thesis
      unfolding Let_def m
      by (auto simp: sendMessage_update_def Let_def nth_append nth_list_update a)
  qed
  have 2: "messages (handleSendMessage None s)
          = messages s @ [\<lparr>role = ''user'', content = trim (input s), relatedQuestions = None\<rparr>]"
    if a: "\<not> isLoading s" "trim (input s) \<noteq> [] \<or> selectedImage s \<noteq> None"
  proof -
    from a have acc: "or_else None (trim (input s)) \<noteq> [] \<or> selectedImage s \<noteq> None"
      by simp
    show ?thesis
      by (simp add: handleSendMessage_accepted [OF a(1) acc] sendMessage_update_def)
  qed
  from 1 2 show ?thesis by blast
qed

theorem override_clears_last_message_if_assistant_witness:
  "(let s = (signedIn)\<lparr>messages :=
               [\<lparr>role = ''user'', content = ''What is tort law?'', relatedQuestions = None\<rparr>,
                \<lparr>role = ''assistant'', content = ''A civil wrong.'',
                 relatedQuestions = Some [''What is negligence?'']\<rparr>]\<rparr>
    in \<not> isLoading s
       \<and> messages (handleSendMessage (Some ''What is negligence?'') s) =
           [\<lparr>role = ''user'', content = ''What is tort law?'', relatedQuestions = None\<rparr>,
            \<lparr>role = ''assistant'', content = ''A civil wrong.'', relatedQuestions = Some []\<rparr>,
            \<lparr>role = ''user'', content = ''What is negligence?'', relatedQuestions = None\<rparr>])"
  using override_clears_last_message_if_assistant
    [of "(signedIn)\<lparr>messages :=
               [\<lparr>role = ''user'', content = ''What is tort law?'', relatedQuestions = None\<rparr>,
                \<lparr>role = ''assistant'', content = ''A civil wrong.'',
                 relatedQuestions = Some [''What is negligence?'']\<rparr>]\<rparr>"
        "''What is negligence?''"]
  by (simp add: Let_def signedIn_def initial_def handleSendMessage_def sendMessage_update_def)

text \<open>
  C3 as it is written fails. A question is asked and answered with one suggestion, then
  a document is uploaded, so that two \<open>system\<close> messages follow the assistant message;
  then the suggestion under the answer is clicked. The submission is accepted and the
  user message appended, but the message the suggestion came from, the only assistant
  message of the list, keeps its \<open>relatedQuestions\<close>.
\<close>

theorem suggestion_source_not_cleared_counterexample:
  "(let s = run [SetInput ''What is tort law?'', SendMessage None,
                 Settle 0 (Fulfilled (ChatBody
                   \<lparr>answer = ''A civil wrong.'',
                    related_questions = Some [''What is negligence?''],
                    conversation_id = Some ''c1''\<rparr>)),
                 Settle 0 (Fulfilled (ConversationsBody
                   [\<lparr>id_conv = ''c1'', title = ''What is tort law?'', message_count = 2,
                      updated_at = ''2025-01-01'', created_at = ''2025-01-01''\<rparr>])),
                 FileChange (Some \<lparr>file_name = ''contract.pdf'',
                                   file_type = ''application/pdf''\<rparr>) ''blob:1'',
                 Settle 0 (Fulfilled (UploadBody ''Document processed.''))] signedIn;
        s' = step (ClickRelatedQuestion 1 0) s
    in messages s =
         [\<lparr>role = ''user'', content = ''What is tort law?'', relatedQuestions = None\<rparr>,
          \<lparr>role = ''assistant'', content = ''A civil wrong.'',
           relatedQuestions = Some [''What is negligence?'']\<rparr>,
          \<lparr>role = ''system'', content = ''Uploading contract.pdf...'',
           relatedQuestions = None\<rparr>,
          \<lparr>role = ''system'', content = ''Document processed.'', relatedQuestions = None\<rparr>]
       \<and> s' = handleSendMessage (Some ''What is negligence?'') s
       \<and> messages s' =
         [\<lparr>role = ''user'', content = ''What is tort law?'', relatedQuestions = None\<rparr>,
          \<lparr>role = ''assistant'', content = ''A civil wrong.'',
           relatedQuestions = Some [''What is negligence?'']\<rparr>,
          \<lparr>role = ''system'', content = ''Uploading contract.pdf...'',
           relatedQuestions = None\<rparr>,
          \<lparr>role = ''system'', content = ''Document processed.'', relatedQuestions = None\<rparr>,
          \<lparr>role = ''user'', content = ''What is negligence?'', relatedQuestions = None\<rparr>]
       \<and> relatedQuestions (messages s' ! 1) \<noteq> Some [])"
proof -
  define s where "s = run [SetInput ''What is tort law?'', SendMessage None,
                 Settle 0 (Fulfilled (ChatBody
                   \<lparr>answer = ''A civil wrong.'',
                    related_questions = Some [''What is negligence?''],
                    conversation_id = Some ''c1''\<rparr>)),
                 Settle 0 (Fulfilled (ConversationsBody
                   [\<lparr>id_conv = ''c1'', title = ''What is tort law?'', message_count = 2,
                      updated_at = ''2025-01-01'', created_at = ''2025-01-01''\<rparr>])),
                 FileChange (Some \<lparr>file_name = ''contract.pdf'',
                                   file_type = ''application/pdf''\<rparr>) ''blob:1'',
                 Settle 0 (Fulfilled (UploadBody ''Document processed.''))] signedIn"
  have a: "messages s =
         [\<lparr>role = ''user'', content = ''What is tort law?'', relatedQuestions = None\<rparr>,
          \<lparr>role = ''assistant'', content = ''A civil wrong.'',
           relatedQuestions = Some [''What is negligence?'']\<rparr>,
          \<lparr>role = ''system'', content = ''Uploading contract.pdf...'',
           relatedQuestions = None\<rparr>,
          \<lparr>role = ''system'', content = ''Document processed.'', relatedQuestions = None\<rparr>]"
    "\<not> isLoading s"
    by (simp_all add: s_def Let_def signedIn_def initial_def handleSendMessage_def trim_def
        isWhiteSpace_def sendMessage_update_def chatRequest_def settle_def unpend_def
        handleSendMessage_answer_def loadConversations_def handleSendMessage_refreshed_def
        handleFileChange_def handleDocumentUpload_def)
  have c: "step (ClickRelatedQuestion 1 0) s = handleSendMessage (Some ''What is negligence?'') s"
    by (simp add: clickRelatedQuestion_def a)
  have acc: "or_else (Some ''What is negligence?'') (trim (input s)) \<noteq> []
             \<or> selectedImage s \<noteq> None"
    by simp
  have m: "messages (handleSendMessage (Some ''What is negligence?'') s) =
         [\<lparr>role = ''user'', content = ''What is tort law?'', relatedQuestions = None\<rparr>,
          \<lparr>role = ''assistant'', content = ''A civil wrong.'',
           relatedQuestions = Some [''What is negligence?'']\<rparr>,
          \<lparr>role = ''system'', content = ''Uploading contract.pdf...'',
           relatedQuestions = None\<rparr>,
          \<lparr>role = ''system'', content = ''Document processed.'', relatedQuestions = None\<rparr>,
          \<lparr>role = ''user'', content = ''What is negligence?'', relatedQuestions = None\<rparr>]"
    by (simp add: handleSendMessage_accepted [OF a(2) acc] sendMessage_update_def a)
  from a c m show ?thesis
    unfolding Let_def s_def [symmetric] by simp
qed

subsection \<open>Speech\<close>

text \<open>
  C2 (as amended). The completion signal of any utterance that was started sets the
  controller to silent (\<open>isSpeaking\<close> false, no active index), whatever the state: also
  when a toggle issued after that utterance started has made another message the speaking
  one.
\<close>

theorem completion_signal_always_silences:
  "u < utterances_created s \<Longrightarrow>
     (\<not> isSpeaking (utterance_onend u s) \<and> speakingMessageId (utterance_onend u s) = None)
     \<and> (let s1 = handleToggleSpeech j txt speaking s; s2 = utterance_onend u s1
        in \<not> isSpeaking s2 \<and> speakingMessageId s2 = None)"
  by (simp add: utterance_onend_def onEndCallback_def handleToggleSpeech_def speech_speak_def
      speech_cancel_def Let_def)

theorem completion_signal_always_silences_witness:
  "(let s = handleToggleSpeech 1 ''A civil wrong.'' False
              (signedIn\<lparr>messages :=
                 [\<lparr>role = ''user'', content = ''What is tort law?'', relatedQuestions = None\<rparr>,
                  \<lparr>role = ''assistant'', content = ''A civil wrong.'',
                   relatedQuestions = Some []\<rparr>]\<rparr>)
    in (0::nat) < utterances_created s \<and> isSpeaking s \<and> speakingMessageId s = Some 1
       \<and> \<not> isSpeaking (utterance_onend 0 s) \<and> speakingMessageId (utterance_onend 0 s) = None)"
  using completion_signal_always_silences
    [of 0 "handleToggleSpeech 1 ''A civil wrong.'' False
              (signedIn\<lparr>messages :=
                 [\<lparr>role = ''user'', content = ''What is tort law?'', relatedQuestions = None\<rparr>,
                  \<lparr>role = ''assistant'', content = ''A civil wrong.'',
                   relatedQuestions = Some []\<rparr>]\<rparr>)" 0 "''x''" False]
  by (simp add: Let_def signedIn_def initial_def handleToggleSpeech_def speech_speak_def)

text \<open>
  C2 as it is written fails. Two questions are asked and answered; the first answer
  (message 1) is read aloud as utterance 0; then the button of the second answer
  (message 3) is pressed while the synthesiser is speaking, which cancels utterance 0 and
  starts utterance 1: the state is "speaking message 3". Then the completion signal
  of utterance 0 arrives, and the state is silent although utterance 1 is the current
  one.
\<close>

theorem stale_completion_signal_counterexample:
  "(let s = run [SetInput ''What is tort law?'', SendMessage None,
                 Settle 0 (Fulfilled (ChatBody
                   \<lparr>answer = ''A civil wrong.'', related_questions = None,
                    conversation_id = Some ''c1''\<rparr>)),
                 Settle 0 (Fulfilled (ConversationsBody
                   [\<lparr>id_conv = ''c1'', title = ''What is tort law?'', message_count = 2,
                      updated_at = ''2025-01-01'', created_at = ''2025-01-01''\<rparr>])),
                 SetInput ''What is negligence?'', SendMessage None,
                 Settle 0 (Fulfilled (ChatBody
                   \<lparr>answer = ''Negligence is a tort.'', related_questions = None,
                    conversation_id = Some ''c1''\<rparr>)),
                 ToggleSpeech 1 ''A civil wrong.'' False,
                 ToggleSpeech 3 ''Negligence is a tort.'' True] signedIn;
        s' = step (UtteranceEnd 0) s
    in map role (messages s) = [''user'', ''assistant'', ''user'', ''assistant'']
       \<and> isSpeaking s \<and> speakingMessageId s = Some 3 \<and> utterance s = Some 1
       \<and> synth_calls s = [SynthSpeak 0 ''A civil wrong.'', SynthCancel,
                           SynthSpeak 1 ''Negligence is a tort.'']
       \<and> \<not> isSpeaking s' \<and> speakingMessageId s' = None \<and> utterance s' = Some 1)"
  by (simp add: Let_def signedIn_def initial_def handleSendMessage_def trim_def
      isWhiteSpace_def sendMessage_update_def chatRequest_def settle_def unpend_def
      handleSendMessage_answer_def loadConversations_def handleSendMessage_refreshed_def
      clickSpeechButton_def handleToggleSpeech_def speech_speak_def utterance_onend_def
      onEndCallback_def)

subsection \<open>Single flight\<close>

lemma clickRelatedQuestion_cases:
  "clickRelatedQuestion i k s = s \<or> (\<exists>t. clickRelatedQuestion i k s = handleSendMessage (Some t) s)"
  by (auto simp: clickRelatedQuestion_def split: option.split)

lemma clickRelatedQuestion_busy: "isLoading s \<Longrightarrow> clickRelatedQuestion i k s = s"
  using clickRelatedQuestion_cases [of i k s] by (auto simp: handleSendMessage_busy)



lemma loadConversations_settled_fields [simp]:
  "pending (loadConversations_settled r s) = pending s"
  "isLoading (loadConversations_settled r s) = isLoading s"
  "messages (loadConversations_settled r s) = messages s"
proof -
  show "pending (loadConversations_settled r s) = pending s"
    by (cases "(r, s)" rule: loadConversations_settled.cases) (simp_all add: Let_def)
  show "isLoading (loadConversations_settled r s) = isLoading s"
    by (cases "(r, s)" rule: loadConversations_settled.cases) (simp_all add: Let_def)
  show "messages (loadConversations_settled r s) = messages s"
    by (cases "(r, s)" rule: loadConversations_settled.cases) (simp_all add: Let_def)
qed


lemma handleLogout_settled_fields [simp]:
  "pending (handleLogout_settled r s) = pending s"
  "isLoading (handleLogout_settled r s) = isLoading s"
proof -
  show "pending (handleLogout_settled r s) = pending s"
    by (cases r) (simp_all add: handleLogout_finally_def Let_def)
  show "isLoading (handleLogout_settled r s) = isLoading s"
    by (cases r) (simp_all add: handleLogout_finally_def Let_def)
qed

lemma deleteConversation_settled_fields:
  "isLoading (deleteConversation_settled c cap r s) = isLoading s"
  "set (pending s) \<subseteq> set (pending (deleteConversation_settled c cap r s))"
proof -
  show "isLoading (deleteConversation_settled c cap r s) = isLoading s"
    by (cases r) (simp_all add: Let_def)
  show "set (pending s) \<subseteq> set (pending (deleteConversation_settled c cap r s))"
    by (cases r) (auto simp: Let_def)
qed

lemma side_flow_settled_fields:
  "isLoading (createNewConversation_settled r s) = isLoading s"
  "set (pending s) \<subseteq> set (pending (createNewConversation_settled r s))"
  "isLoading (handleDocumentUpload_settled r s) = isLoading s"
  "pending (handleDocumentUpload_settled r s) = pending s"
  "isLoading (handleTranscription_settled r s) = isLoading s"
  "pending (handleTranscription_settled r s) = pending s"
proof -
  show "isLoading (createNewConversation_settled r s) = isLoading s"
    by (cases "(r, s)" rule: createNewConversation_settled.cases)
       (simp_all add: createNewConversation_catch_def)
  show "set (pending s) \<subseteq> set (pending (createNewConversation_settled r s))"
    by (cases "(r, s)" rule: createNewConversation_settled.cases)
       (auto simp: createNewConversation_catch_def)
  show "isLoading (handleDocumentUpload_settled r s) = isLoading s"
    by (cases "(r, s)" rule: handleDocumentUpload_settled.cases)
       (simp_all add: handleDocumentUpload_catch_def)
  show "pending (handleDocumentUpload_settled r s) = pending s"
    by (cases "(r, s)" rule: handleDocumentUpload_settled.cases)
       (simp_all add: handleDocumentUpload_catch_def)
  show "isLoading (handleTranscription_settled r s) = isLoading s"
    by (cases "(r, s)" rule: handleTranscription_settled.cases)
       (simp_all add: handleTranscription_catch_def)
  show "pending (handleTranscription_settled r s) = pending s"
    by (cases "(r, s)" rule: handleTranscription_settled.cases)
       (simp_all add: handleTranscription_catch_def)
qed

















subsection \<open>The busy flag is shared\<close>

lemma in_set_remove_nth:
  assumes "x \<in> set ps" and "n < length ps" and "ps ! n \<noteq> x"
  shows "x \<in> set (take n ps @ drop (Suc n) ps)"
proof -
  have "set ps = set (take n ps @ ps ! n # drop (Suc n) ps)"
    by (rule arg_cong [where f = set, OF id_take_nth_drop [OF assms(2)]])
  then have "x \<in> set (take n ps @ ps ! n # drop (Suc n) ps)"
    using assms(1) by blast
  with assms(3) show ?thesis by auto
qed

lemma quiet_step:
  assumes "isLoading s" and "PendingHistory c \<in> set (pending s)" and "\<not> settlesTurnOrLoad s e"
  shows "isLoading (step e s) \<and> PendingHistory c \<in> set (pending (step e s))"
proof (cases e)
  case (SendMessage q)
  with assms show ?thesis by (simp add: handleSendMessage_busy)
next
  case (ClickRelatedQuestion i k)
  with assms show ?thesis by (simp add: clickRelatedQuestion_busy)
next
  case (SelectConversation c')
  with assms show ?thesis by (simp add: loadConversation_def)
next
  case (DeleteConversation c' confirmed)
  with assms show ?thesis by (simp add: deleteConversation_def)
next
  case Logout
  with assms show ?thesis by (simp add: handleLogout_def)
next
  case (ToggleSpeech i plain speaking)
  with assms show ?thesis
    by (simp add: clickSpeechButton_def handleToggleSpeech_def speech_speak_def
        speech_cancel_def)
next
  case (UtteranceEnd u)
  with assms show ?thesis by (simp add: utterance_onend_def onEndCallback_def)
next
  case NewConversation
  with assms show ?thesis by (simp add: createNewConversation_def)
next
  case (FileChange chosen objectUrl)
  with assms show ?thesis
    by (simp add: handleFileChange_def handleDocumentUpload_def split: option.split)
next
  case RemoveImage
  with assms show ?thesis by (simp add: removeImage_def)
next
  case (SetInput v)
  with assms show ?thesis by simp
next
  case (AudioRecorded blobType)
  with assms show ?thesis by (simp add: handleTranscription_def)
next
  case (Settle n b)
  show ?thesis
  proof (cases "n < length (pending s)")
    case False
    with assms Settle show ?thesis by (simp add: settle_def)
  next
    case True
    let ?s0 = "unpend n s"
    from assms(3) Settle True have ne: "pending s ! n \<noteq> PendingHistory c"
      by (auto split: pending_op.splits)
    have u: "isLoading ?s0" "PendingHistory c \<in> set (pending ?s0)"
      using assms(1) in_set_remove_nth [OF assms(2) True ne] by (simp_all add: unpend_def)
    show ?thesis
    proof (cases "pending s ! n")
      case (PendingDelete c' cap)
      with True Settle
      have e: "step e s = deleteConversation_settled c' cap (asAny b) ?s0"
        by (simp add: settle_def)
      from u deleteConversation_settled_fields [where c = c' and cap = cap and r = "asAny b" and s = ?s0]
      show ?thesis unfolding e by auto
    next
      case PendingRefresh
      show ?thesis
      proof (cases "asConversations b")
        case None
        with True Settle PendingRefresh assms show ?thesis by (simp add: settle_def)
      next
        case (Some r)
        with True Settle PendingRefresh
        have e: "step e s = loadConversations_settled r ?s0"
          by (simp add: settle_def)
        from u show ?thesis unfolding e by simp
      qed
    next
      case PendingLogout
      with True Settle
      have e: "step e s = handleLogout_settled (asAny b) ?s0"
        by (simp add: settle_def)
      from u show ?thesis unfolding e by simp
    next
      case PendingCreate
      show ?thesis
      proof (cases "asNewConversation b")
        case None
        with True Settle PendingCreate assms show ?thesis by (simp add: settle_def)
      next
        case (Some r)
        with True Settle PendingCreate
        have e: "step e s = createNewConversation_settled r ?s0"
          by (simp add: settle_def)
        from u side_flow_settled_fields(1,2) [where r = r and s = ?s0] show ?thesis unfolding e by auto
      qed
    next
      case PendingUpload
      show ?thesis
      proof (cases "asUpload b")
        case None
        with True Settle PendingUpload assms show ?thesis by (simp add: settle_def)
      next
        case (Some r)
        with True Settle PendingUpload
        have e: "step e s = handleDocumentUpload_settled r ?s0"
          by (simp add: settle_def)
        from u side_flow_settled_fields(3,4) [where r = r and s = ?s0] show ?thesis unfolding e by simp
      qed
    next
      case PendingTranscribe
      show ?thesis
      proof (cases "asTranscription b")
        case None
        with True Settle PendingTranscribe assms show ?thesis by (simp add: settle_def)
      next
        case (Some r)
        with True Settle PendingTranscribe
        have e: "step e s = handleTranscription_settled r ?s0"
          by (simp add: settle_def)
        from u side_flow_settled_fields(5,6) [where r = r and s = ?s0] show ?thesis unfolding e by simp
      qed
    qed (use assms(3) Settle True in simp_all)
  qed
qed

lemma quiet_run:
  assumes "quiet es s" and "isLoading s" and "PendingHistory c \<in> set (pending s)"
  shows "isLoading (run es s) \<and> PendingHistory c \<in> set (pending (run es s))"
  using assms
proof (induction es arbitrary: s)
  case Nil
  then show ?case by simp
next
  case (Cons e es)
  from Cons.prems have q: "\<not> settlesTurnOrLoad s e" "quiet es (step e s)" by simp_all
  from quiet_step [OF Cons.prems(2,3) q(1)] Cons.IH [OF q(2)] show ?case by simp
qed

text \<open>
  C10 (as amended). After \<open>loadConversation\<close> has been called, and as long as no request
  of a turn or of a conversation load has settled since, the history request is still
  pending, \<open>isLoading\<close> is true and a submit call returns the state it was given.
\<close>

theorem submit_ignored_until_turn_or_load_settles:
  assumes "quiet es (loadConversation c s)"
  shows "let s' = run es (loadConversation c s)
         in PendingHistory c \<in> set (pending s') \<and> isLoading s'
            \<and> step (SendMessage q) s' = s' \<and> step (ClickRelatedQuestion i k) s' = s'"
proof -
  have "isLoading (loadConversation c s)"
    and "PendingHistory c \<in> set (pending (loadConversation c s))"
    by (simp_all add: loadConversation_def)
  from quiet_run [OF assms this] show ?thesis
    by (simp add: Let_def handleSendMessage_busy clickRelatedQuestion_busy)
qed

theorem submit_ignored_until_turn_or_load_settles_witness:
  "(let es = [SetInput ''What is tort law?'', SendMessage None,
              ClickRelatedQuestion 0 0];
        s' = run es (loadConversation ''c1'' signedIn)
    in quiet es (loadConversation ''c1'' signedIn)
       \<and> pending s' = [PendingHistory ''c1''] \<and> isLoading s' \<and> messages s' = []
       \<and> input s' = ''What is tort law?''
       \<and> step (SendMessage None) s' = s')"
proof -
  define es where "es = [SetInput ''What is tort law?'', SendMessage None,
              ClickRelatedQuestion 0 0]"
  have q: "quiet es (loadConversation ''c1'' signedIn)"
    by (simp add: es_def)
  define s2 where "s2 = (loadConversation ''c1'' signedIn)\<lparr>input := ''What is tort law?''\<rparr>"
  have g: "isLoading s2" "pending s2 = [PendingHistory ''c1'']" "messages s2 = []"
      "input s2 = ''What is tort law?''"
    by (simp_all add: s2_def signedIn_def initial_def loadConversation_def)
  have r: "run es (loadConversation ''c1'' signedIn) = s2"
    by (simp add: es_def s2_def [symmetric] handleSendMessage_busy [OF g(1)]
        clickRelatedQuestion_busy [OF g(1)])
  from submit_ignored_until_turn_or_load_settles [OF q, of None 0 0]
  have "step (SendMessage None) (run es (loadConversation ''c1'' signedIn))
        = run es (loadConversation ''c1'' signedIn)"
    by (simp add: Let_def)
  with q r g show ?thesis
    unfolding Let_def es_def [symmetric] by simp
qed

text \<open>
  C10 as it is written fails: a question is typed, two conversations are selected one
  after the other, and the first history arrives. The second load is still in flight,
  but \<open>isLoading\<close> is false, and a submit call is accepted: it appends the user message,
  empties the input and issues the chat request.
\<close>

theorem submit_during_load_counterexample:
  "(let s = run [SetInput ''What is tort law?'', SelectConversation ''c1'',
                 SelectConversation ''c2'', Settle 0 (Fulfilled (HistoryBody []))] signedIn;
        s' = step (SendMessage None) s
    in pending s = [PendingHistory ''c2''] \<and> \<not> isLoading s
       \<and> s' \<noteq> s
       \<and> messages s' = [\<lparr>role = ''user'', content = ''What is tort law?'',
                          relatedQuestions = None\<rparr>]
       \<and> input s' = []
       \<and> requests s' = requests s @
            [Request POST ''/chat'' (Json [(''question'', ''What is tort law?''),
                                           (''conversation_id'', ''c1'')])]
       \<and> pending s' = [PendingHistory ''c2'',
                        PendingChat \<lparr>cl_selectedImage = None,
                                     cl_currentConversationId = Some ''c1''\<rparr>])"
proof -
  define s where "s = run [SetInput ''What is tort law?'', SelectConversation ''c1'',
                 SelectConversation ''c2'', Settle 0 (Fulfilled (HistoryBody []))] signedIn"
  have a: "pending s = [PendingHistory ''c2'']" "\<not> isLoading s" "messages s = []"
      "input s = ''What is tort law?''" "selectedImage s = None"
      "currentConversationId s = Some ''c1''"
    by (simp_all add: s_def signedIn_def initial_def loadConversation_def settle_def unpend_def)
  have t: "trim ''What is tort law?'' = ''What is tort law?''"
    by (simp add: trim_def isWhiteSpace_def)
  have acc: "or_else None (trim (input s)) \<noteq> [] \<or> selectedImage s \<noteq> None"
    by (simp add: a t)
  have b: "messages (step (SendMessage None) s)
           = [\<lparr>role = ''user'', content = ''What is tort law?'', relatedQuestions = None\<rparr>]"
    "input (step (SendMessage None) s) = []"
    "requests (step (SendMessage None) s) = requests s @
            [Request POST ''/chat'' (Json [(''question'', ''What is tort law?''),
                                           (''conversation_id'', ''c1'')])]"
    "pending (step (SendMessage None) s)
       = [PendingHistory ''c2'',
          PendingChat \<lparr>cl_selectedImage = None, cl_currentConversationId = Some ''c1''\<rparr>]"
    by (simp_all add: handleSendMessage_accepted [OF a(2) acc] a t sendMessage_update_def
        chatRequest_def)
  from b(2) a(4) have "step (SendMessage None) s \<noteq> s" by auto
  with a b show ?thesis unfolding s_def [symmetric] by (simp add: Let_def)
qed

end
